theory Spec2Isabelle
  imports Complex_Main "HOL-Library.Multiset"
begin

section \<open>Report comparison and opportunity scoring (src/pages/Comparison.tsx)\<close>

text \<open>
  The comparison page receives a list of reports from the backend and derives from
  it the colour class of each metric cell, a best opportunity and four summary
  statistics. This theory embeds those computations and states what they do.

  Numbers. A report field typed \<^verbatim>\<open>number\<close> is carried by a JSON payload, so it
  is a finite number; it is modelled as a \<^typ>\<open>real\<close>, with exact arithmetic in
  place of the rounding of IEEE doubles. A value computed by the page can also be
  one of the three non-finite numbers of JavaScript: \<^verbatim>\<open>Math.min()\<close> of no
  argument is \<^verbatim>\<open>Infinity\<close>, \<^verbatim>\<open>Math.max()\<close> is \<^verbatim>\<open>-Infinity\<close>, and
  \<^verbatim>\<open>0 / 0\<close> is \<^verbatim>\<open>NaN\<close>. Those are the values of type \<open>number\<close> below.
\<close>

subsection \<open>JavaScript numbers\<close>

datatype number = Fin real | Infinity | NegInfinity | NaN

text \<open>\<^verbatim>\<open>a === b\<close> on numbers: \<^verbatim>\<open>NaN\<close> is equal to nothing, itself included.\<close>

fun strict_eq :: "number \<Rightarrow> number \<Rightarrow> bool" where
  "strict_eq NaN _ = False"
| "strict_eq _ NaN = False"
| "strict_eq a b = (a = b)"

text \<open>\<^verbatim>\<open>a / b\<close> for finite operands (signed zeros are not distinguished).\<close>

definition js_div :: "real \<Rightarrow> real \<Rightarrow> number" where
  "js_div a b =
     (if b = 0 then (if a = 0 then NaN else if 0 < a then Infinity else NegInfinity)
      else Fin (a / b))"

text \<open>
  \<^verbatim>\<open>Math.round\<close>: the nearest integer, a tie going to the larger one; the
  non-finite numbers are returned as they are.
\<close>

fun Math_round :: "number \<Rightarrow> number" where
  "Math_round (Fin x) = Fin (of_int \<lfloor>x + 1 / 2\<rfloor>)"
| "Math_round n = n"

text \<open>
  \<^verbatim>\<open>Math.min(...xs)\<close> and \<^verbatim>\<open>Math.max(...xs)\<close> on an array of finite numbers:
  with no argument they return \<^verbatim>\<open>Infinity\<close> and \<^verbatim>\<open>-Infinity\<close>.
\<close>

fun Math_min :: "real list \<Rightarrow> number" where
  "Math_min [] = Infinity"
| "Math_min (x # xs) = Fin (fold min xs x)"

fun Math_max :: "real list \<Rightarrow> number" where
  "Math_max [] = NegInfinity"
| "Math_max (x # xs) = Fin (fold max xs x)"

subsection \<open>The report\<close>

text \<open>
  \<^verbatim>\<open>interface ComparisonReport\<close>, lines 5 to 20. The field \<^verbatim>\<open>id\<close> is named
  \<open>report_id\<close> here, since \<open>id\<close> is the identity function of HOL.
\<close>

record risk_assessment_obj =
  red_flags :: "string list"

record ComparisonReport =
  report_id :: int
  project_name :: string
  client_name :: string
  location :: string
  budget_min :: real
  budget_max :: real
  duration_months :: real
  risk_score :: real
  risk_level :: string
  participation_recommendation :: string
  deadline_date :: string
  risk_assessment :: risk_assessment_obj

datatype js_error = TypeError

subsection \<open>Opportunity scoring: \<^verbatim>\<open>findBestOpportunity\<close>, lines 99 to 114\<close>

text \<open>
  The callback of \<^verbatim>\<open>reports.map\<close> (lines 103 to 110) builds an object
  \<^verbatim>\<open>{ report, score }\<close>; the four \<^verbatim>\<open>score += ...\<close> statements are the four
  bindings of \<open>scoreReport\<close>, in the order of the source.
\<close>

record scored =
  report :: ComparisonReport
  score :: real

definition scoreReport :: "ComparisonReport \<Rightarrow> scored" where
  "scoreReport r =
     (let s0 = 0;
          s1 = s0 + risk_score r * 10;
          s2 = s1 + real (length (red_flags (risk_assessment r))) * 5;
          s3 = s2 + (if participation_recommendation r = ''NO'' then 50 else 0);
          s4 = s3 + (if participation_recommendation r = ''YES'' then - 20 else 0)
      in \<lparr>report = r, score = s4\<rparr>)"

text \<open>
  \<^verbatim>\<open>Array.prototype.sort\<close> belongs to the language: ECMAScript (2019 and later)
  requires it to be stable, and for a consistent comparator a stable sort has
  one possible result. It is modelled by the stable insertion sort that puts an
  element before the first element it does not exceed, \<open>cmp x y \<le> 0\<close>.
\<close>

fun js_insort :: "('a \<Rightarrow> 'a \<Rightarrow> real) \<Rightarrow> 'a \<Rightarrow> 'a list \<Rightarrow> 'a list" where
  "js_insort cmp x [] = [x]"
| "js_insort cmp x (y # ys) =
     (if cmp x y \<le> 0 then x # y # ys else y # js_insort cmp x ys)"

definition Array_sort :: "('a \<Rightarrow> 'a \<Rightarrow> real) \<Rightarrow> 'a list \<Rightarrow> 'a list" where
  "Array_sort cmp xs = foldr (js_insort cmp) xs []"

text \<open>The array \<^verbatim>\<open>scores\<close> before and after line 112.\<close>

definition scores :: "ComparisonReport list \<Rightarrow> scored list" where
  "scores reports = map scoreReport reports"

definition sortedScores :: "ComparisonReport list \<Rightarrow> scored list" where
  "sortedScores reports = Array_sort (\<lambda>a b. score a - score b) (scores reports)"

text \<open>
  The result is \<^verbatim>\<open>null\<close> (\<open>Inr None\<close>) or a report. Reading \<^verbatim>\<open>.report\<close> of
  \<^verbatim>\<open>scores[0]\<close> would throw a TypeError if the sorted array were empty; the
  guard of line 100 excludes it, and the branch is kept so that this is proved.
\<close>

definition findBestOpportunity :: "ComparisonReport list \<Rightarrow> js_error + ComparisonReport option" where
  "findBestOpportunity reports =
     (if length reports = 0 then Inr None
      else (case sortedScores reports of
              [] \<Rightarrow> Inl TypeError
            | s # _ \<Rightarrow> Inr (Some (report s))))"

text \<open>The reports in the order of the sorted array: the ranking.\<close>

definition rank :: "ComparisonReport list \<Rightarrow> ComparisonReport list" where
  "rank reports = map report (sortedScores reports)"



subsection \<open>The recommendation banner, lines 151 to 161\<close>

text \<open>
  The banner is rendered only when \<^verbatim>\<open>bestOpportunity\<close> is not \<^verbatim>\<open>null\<close>. Its
  text is kept as the sequence of its fragments, the literal text being what JSX
  leaves of it (a line break with its indentation becomes one space between two
  words and nothing at the end of a text). \<open>Fixed1\<close> is a number printed by
  \<^verbatim>\<open>toFixed(1)\<close> and \<open>Count\<close> a length.
\<close>

datatype fragment = Text string | Fixed1 real | Count nat

definition recommendationBanner :: "ComparisonReport option \<Rightarrow> fragment list option" where
  "recommendationBanner bestOpportunity =
     (case bestOpportunity of
        None \<Rightarrow> None
      | Some b \<Rightarrow> Some
          [Text ''Best opportunity: '', Text (project_name b),
           Text '' - Lowest risk ('', Fixed1 (risk_score b), Text ''),'',
           Count (length (red_flags (risk_assessment b))),
           Text '' red flags, recommendation: '', Text (participation_recommendation b)])"

subsection \<open>Metric comparison: lines 58 to 91\<close>

text \<open>The union of string literals that types the parameter \<^verbatim>\<open>key\<close>.\<close>

datatype metric_key = Key_budget_min | Key_budget_max | Key_risk_score | Key_duration_months

definition getBestValue :: "metric_key \<Rightarrow> ComparisonReport list \<Rightarrow> number" where
  "getBestValue key reports =
     (if key = Key_risk_score then Math_min (map risk_score reports)
      else if key = Key_duration_months then Math_min (map duration_months reports)
      else if key = Key_budget_max then Math_max (map budget_max reports)
      else Math_min (map budget_min reports))"

definition getWorstValue :: "metric_key \<Rightarrow> ComparisonReport list \<Rightarrow> number" where
  "getWorstValue key reports =
     (if key = Key_risk_score then Math_max (map risk_score reports)
      else if key = Key_duration_months then Math_max (map duration_months reports)
      else if key = Key_budget_max then Math_min (map budget_max reports)
      else Math_max (map budget_min reports))"

text \<open>
  \<^verbatim>\<open>getValueColor\<close> reads the state variable \<^verbatim>\<open>reports\<close> of the component; it
  is the third parameter here. The result is the class string of the table cell.
\<close>

definition getValueColor :: "real \<Rightarrow> metric_key \<Rightarrow> ComparisonReport list \<Rightarrow> string" where
  "getValueColor v key reports =
     (let best = getBestValue key reports;
          worst = getWorstValue key reports
      in if strict_eq (Fin v) best then ''bg-green-100 text-green-800 font-bold''
         else if strict_eq (Fin v) worst then ''bg-red-100 text-red-800''
         else [])"

text \<open>
  The three classifications of the specification and the class string that stands
  for each in the source: green is best, red is worst, no class is neutral.
\<close>

datatype classification = BEST | WORST | NEUTRAL

fun className :: "classification \<Rightarrow> string" where
  "className BEST = ''bg-green-100 text-green-800 font-bold''"
| "className WORST = ''bg-red-100 text-red-800''"
| "className NEUTRAL = []"

text \<open>The field of a report that a key names.\<close>

fun metricOf :: "metric_key \<Rightarrow> ComparisonReport \<Rightarrow> real" where
  "metricOf Key_budget_min r = budget_min r"
| "metricOf Key_budget_max r = budget_max r"
| "metricOf Key_risk_score r = risk_score r"
| "metricOf Key_duration_months r = duration_months r"

text \<open>
  The classification in the order that the specification words in its section 4.1,
  the worst extreme compared before the best one. It is not the source's order.
\<close>

definition classify_worst_first :: "real \<Rightarrow> metric_key \<Rightarrow> ComparisonReport list \<Rightarrow> classification" where
  "classify_worst_first v key reports =
     (if strict_eq (Fin v) (getWorstValue key reports) then WORST
      else if strict_eq (Fin v) (getBestValue key reports) then BEST
      else NEUTRAL)"

subsection \<open>Summary statistics: lines 324 to 352\<close>

text \<open>
  The four numbers of the summary panel are expressions written in the markup.
  Each \<^verbatim>\<open>reduce\<close> is a left fold from \<^verbatim>\<open>0\<close>. The formatting applied to the
  result for display (\<^verbatim>\<open>toFixed(1)\<close>, \<^verbatim>\<open>formatCurrency\<close>) is not part of the
  number and is left out; \<^verbatim>\<open>Math.round\<close> is kept.
\<close>

definition average_risk_score :: "ComparisonReport list \<Rightarrow> number" where
  "average_risk_score reports =
     js_div (foldl (\<lambda>sum r. sum + risk_score r) 0 reports) (real (length reports))"

definition average_budget :: "ComparisonReport list \<Rightarrow> number" where
  "average_budget reports =
     js_div (foldl (\<lambda>sum r. sum + (budget_min r + budget_max r) / 2) 0 reports)
       (real (length reports))"

definition average_duration :: "ComparisonReport list \<Rightarrow> number" where
  "average_duration reports =
     Math_round (js_div (foldl (\<lambda>sum r. sum + duration_months r) 0 reports)
       (real (length reports)))"

definition total_red_flags :: "ComparisonReport list \<Rightarrow> real" where
  "total_red_flags reports =
     foldl (\<lambda>sum r. sum + real (length (red_flags (risk_assessment r)))) 0 reports"


record summary =
  avgRisk :: number
  avgBudget :: number
  avgDuration :: number
  totalRedFlags :: real

text \<open>
  The error that section 4.3 of the specification gives to the summary of no
  report. No statement of the source throws it.
\<close>

datatype spec_error = EmptyInputError

text \<open>
  None of the four expressions can throw, whatever the list: \<open>summarize\<close>
  always returns a summary.
\<close>

definition summarize :: "ComparisonReport list \<Rightarrow> spec_error + summary" where
  "summarize reports =
     Inr \<lparr>avgRisk = average_risk_score reports,
          avgBudget = average_budget reports,
          avgDuration = average_duration reports,
          totalRedFlags = total_red_flags reports\<rparr>"

subsection \<open>Loading the comparison: \<^verbatim>\<open>loadComparison\<close>, lines 32 to 47\<close>

text \<open>\<^verbatim>\<open>s.split(',')\<close>: the pieces of \<open>s\<close> between the separators, never none.\<close>

fun split_on :: "char \<Rightarrow> string \<Rightarrow> string list" where
  "split_on c [] = [[]]"
| "split_on c (x # xs) =
     (if x = c then [] # split_on c xs
      else (case split_on c xs of
              [] \<Rightarrow> [[x]]
            | p # ps \<Rightarrow> (x # p) # ps))"

text \<open>
  Line 34. \<^verbatim>\<open>searchParams.get('ids')\<close> is \<^verbatim>\<open>null\<close> (\<open>None\<close>) when the query has
  no such parameter, and then \<^verbatim>\<open>ids\<close> is the empty array. \<^verbatim>\<open>Number\<close> is the
  conversion of the language, a parameter here.
\<close>

definition parse_ids :: "(string \<Rightarrow> number) \<Rightarrow> string option \<Rightarrow> number list" where
  "parse_ids Number param =
     (case param of
        None \<Rightarrow> []
      | Some s \<Rightarrow> map Number (split_on CHR '','' s))"






subsection \<open>The same operations on a store\<close>

text \<open>
  In the source a report is an object and \<^verbatim>\<open>reports\<close> an array of references
  to such objects; \<^verbatim>\<open>map\<close> builds a new array and \<^verbatim>\<open>sort\<close> reorders its
  array in place. To state what an operation leaves untouched, the operations
  are written once more on a store: a list of cells, an address being an index
  and an allocation adding a cell at the end. Reading an address that does not
  hold what is expected is the TypeError of the language.
\<close>

type_synonym addr = nat

datatype cell =
    ReportObj ComparisonReport
  | ReportArray "addr list"
  | ScoresArray "(addr \<times> real) list"
  | NumberArray "real list"

type_synonym store = "cell list"

definition alloc :: "cell \<Rightarrow> store \<Rightarrow> addr \<times> store" where
  "alloc c h = (length h, h @ [c])"

definition read_cell :: "store \<Rightarrow> addr \<Rightarrow> cell option" where
  "read_cell h a = (if a < length h then Some (h ! a) else None)"

definition read_report :: "store \<Rightarrow> addr \<Rightarrow> js_error + ComparisonReport" where
  "read_report h a =
     (case read_cell h a of Some (ReportObj r) \<Rightarrow> Inr r | _ \<Rightarrow> Inl TypeError)"

definition read_refs :: "store \<Rightarrow> addr \<Rightarrow> js_error + addr list" where
  "read_refs h a =
     (case read_cell h a of Some (ReportArray ps) \<Rightarrow> Inr ps | _ \<Rightarrow> Inl TypeError)"

definition read_numbers :: "store \<Rightarrow> addr \<Rightarrow> js_error + real list" where
  "read_numbers h a =
     (case read_cell h a of Some (NumberArray xs) \<Rightarrow> Inr xs | _ \<Rightarrow> Inl TypeError)"

definition read_scores :: "store \<Rightarrow> addr \<Rightarrow> js_error + (addr \<times> real) list" where
  "read_scores h a =
     (case read_cell h a of Some (ScoresArray ss) \<Rightarrow> Inr ss | _ \<Rightarrow> Inl TypeError)"

text \<open>A callback applied to each element in turn, the first error ending the loop.\<close>

fun mapE :: "('a \<Rightarrow> 'e + 'b) \<Rightarrow> 'a list \<Rightarrow> 'e + 'b list" where
  "mapE f [] = Inr []"
| "mapE f (x # xs) =
     (case f x of
        Inl e \<Rightarrow> Inl e
      | Inr y \<Rightarrow> (case mapE f xs of Inl e \<Rightarrow> Inl e | Inr ys \<Rightarrow> Inr (y # ys)))"

text \<open>The reports that the array at an address refers to.\<close>

definition deref_reports :: "store \<Rightarrow> addr \<Rightarrow> js_error + ComparisonReport list" where
  "deref_reports h a =
     (case read_refs h a of Inl e \<Rightarrow> Inl e | Inr ps \<Rightarrow> mapE (read_report h) ps)"

text \<open>
  \<^verbatim>\<open>scores.sort(cmp)\<close>: the one write of the page's computations. It replaces
  the content of the array it is called on.
\<close>

definition sort_in_place ::
  "(addr \<times> real \<Rightarrow> addr \<times> real \<Rightarrow> real) \<Rightarrow> addr \<Rightarrow> store \<Rightarrow> js_error + store" where
  "sort_in_place cmp a h =
     (case read_scores h a of
        Inl e \<Rightarrow> Inl e
      | Inr ss \<Rightarrow> Inr (h[a := ScoresArray (Array_sort cmp ss)]))"

text \<open>
  \<^verbatim>\<open>findBestOpportunity\<close> on the store: an object \<^verbatim>\<open>{ report, score }\<close> is the
  pair of the reference to the report and the score. The result is the reference
  held by the first element of the sorted array.
\<close>

definition h_findBestOpportunity :: "addr \<Rightarrow> store \<Rightarrow> js_error + (addr option \<times> store)" where
  "h_findBestOpportunity a h =
     (case read_refs h a of
        Inl e \<Rightarrow> Inl e
      | Inr ps \<Rightarrow>
          if length ps = 0 then Inr (None, h)
          else (case mapE (\<lambda>p. case read_report h p of
                                  Inl e \<Rightarrow> Inl e
                                | Inr r \<Rightarrow> Inr (p, score (scoreReport r))) ps of
                  Inl e \<Rightarrow> Inl e
                | Inr ss \<Rightarrow>
                    (let (sa, h1) = alloc (ScoresArray ss) h
                     in case sort_in_place (\<lambda>x y. snd x - snd y) sa h1 of
                          Inl e \<Rightarrow> Inl e
                        | Inr h2 \<Rightarrow>
                            (case read_scores h2 sa of
                               Inr (s # _) \<Rightarrow> Inr (Some (fst s), h2)
                             | _ \<Rightarrow> Inl TypeError))))"

text \<open>
  \<^verbatim>\<open>Math.min(...reports.map(r => r.f))\<close>: the array of the field's values is
  allocated, then read.
\<close>

definition h_extreme ::
  "(real list \<Rightarrow> number) \<Rightarrow> (ComparisonReport \<Rightarrow> real) \<Rightarrow> addr \<Rightarrow> store
     \<Rightarrow> js_error + (number \<times> store)" where
  "h_extreme m f a h =
     (case deref_reports h a of
        Inl e \<Rightarrow> Inl e
      | Inr rs \<Rightarrow>
          (let (na, h1) = alloc (NumberArray (map f rs)) h
           in case read_numbers h1 na of
                Inl e \<Rightarrow> Inl e
              | Inr xs \<Rightarrow> Inr (m xs, h1)))"

definition h_getBestValue :: "metric_key \<Rightarrow> addr \<Rightarrow> store \<Rightarrow> js_error + (number \<times> store)" where
  "h_getBestValue key a h =
     (if key = Key_risk_score then h_extreme Math_min risk_score a h
      else if key = Key_duration_months then h_extreme Math_min duration_months a h
      else if key = Key_budget_max then h_extreme Math_max budget_max a h
      else h_extreme Math_min budget_min a h)"

definition h_getWorstValue :: "metric_key \<Rightarrow> addr \<Rightarrow> store \<Rightarrow> js_error + (number \<times> store)" where
  "h_getWorstValue key a h =
     (if key = Key_risk_score then h_extreme Math_max risk_score a h
      else if key = Key_duration_months then h_extreme Math_max duration_months a h
      else if key = Key_budget_max then h_extreme Math_min budget_max a h
      else h_extreme Math_max budget_min a h)"

definition h_getValueColor ::
  "real \<Rightarrow> metric_key \<Rightarrow> addr \<Rightarrow> store \<Rightarrow> js_error + (string \<times> store)" where
  "h_getValueColor v key a h =
     (case h_getBestValue key a h of
        Inl e \<Rightarrow> Inl e
      | Inr (best, h1) \<Rightarrow>
          (case h_getWorstValue key a h1 of
             Inl e \<Rightarrow> Inl e
           | Inr (worst, h2) \<Rightarrow>
               Inr (if strict_eq (Fin v) best then ''bg-green-100 text-green-800 font-bold''
                    else if strict_eq (Fin v) worst then ''bg-red-100 text-red-800''
                    else [], h2)))"

text \<open>The four \<^verbatim>\<open>reduce\<close> calls of the summary read the reports and allocate nothing.\<close>

definition h_summarize :: "addr \<Rightarrow> store \<Rightarrow> js_error + (summary \<times> store)" where
  "h_summarize a h =
     (case deref_reports h a of
        Inl e \<Rightarrow> Inl e
      | Inr rs \<Rightarrow>
          Inr (\<lparr>avgRisk = average_risk_score rs,
                avgBudget = average_budget rs,
                avgDuration = average_duration rs,
                totalRedFlags = total_red_flags rs\<rparr>, h))"

text \<open>
  An element of the array of pairs read as an object \<^verbatim>\<open>{ report, score }\<close> of
  the value model: the reference is followed.
\<close>

definition scored_at :: "store \<Rightarrow> addr \<times> real \<Rightarrow> scored" where
  "scored_at h x = \<lparr>report = projr (read_report h (fst x)), score = snd x\<rparr>"

subsection \<open>Example data\<close>

text \<open>A report with the given numbers, flags and recommendation.\<close>

definition sample ::
  "int \<Rightarrow> real \<Rightarrow> real \<Rightarrow> real \<Rightarrow> real \<Rightarrow> string list \<Rightarrow> string \<Rightarrow> ComparisonReport" where
  "sample i bmin bmax dur risk flags rec =
     \<lparr>report_id = i, project_name = ''Bridge'', client_name = ''City'',
      location = ''Lyon'', budget_min = bmin, budget_max = bmax,
      duration_months = dur, risk_score = risk, risk_level = ''LOW'',
      participation_recommendation = rec, deadline_date = ''2025-01-31'',
      risk_assessment = \<lparr>red_flags = flags\<rparr>\<rparr>"


text \<open>A store with two reports and, at address 2, the array that refers to them.\<close>

definition sample_store :: store where
  "sample_store =
     [ReportObj (sample 1 80 100 6 8 [''a'', ''b'', ''c''] ''NO''),
      ReportObj (sample 2 90 200 4 2 [] ''YES''),
      ReportArray [0, 1]]"

section \<open>Properties\<close>



subsection \<open>The sort of line 112\<close>

lemma js_insort_insort_key:
  "js_insort (\<lambda>a b. f a - f b) x ys = insort_key f x ys"
  by (induction ys) auto

lemma Array_sort_sort_key:
  "Array_sort (\<lambda>a b. f a - f b) xs = sort_key f xs"
  by (induction xs) (simp_all add: Array_sort_def js_insort_insort_key)

lemma sortedScores_sort_key:
  "sortedScores reports = sort_key score (map scoreReport reports)"
  by (simp add: sortedScores_def scores_def Array_sort_sort_key)

lemma sortedScores_Nil_iff: "sortedScores reports = [] \<longleftrightarrow> reports = []"
proof -
  have "length (sortedScores reports) = length reports"
    by (simp add: sortedScores_sort_key)
  then show ?thesis by (metis length_0_conv)
qed

lemma findBestOpportunity_hd:
  "reports \<noteq> [] \<Longrightarrow>
     findBestOpportunity reports = Inr (Some (report (hd (sortedScores reports))))"
  using sortedScores_Nil_iff [of reports]
  by (auto simp: findBestOpportunity_def split: list.splits)

subsection \<open>The opportunity score\<close>


subsection \<open>The ranking and the best opportunity\<close>










lemma rank_Nil_iff: "rank reports = [] \<longleftrightarrow> reports = []"
  by (simp add: rank_def sortedScores_Nil_iff)

lemma findBestOpportunity_rank:
  "reports \<noteq> [] \<Longrightarrow> findBestOpportunity reports = Inr (Some (hd (rank reports)))"
  by (simp add: findBestOpportunity_hd rank_def hd_map sortedScores_Nil_iff)




text \<open>
  Claim C5. For the empty list the best opportunity is \<^verbatim>\<open>null\<close>: no report
  and no error. For every other list the ranking is not empty and the best
  opportunity is its first element.
\<close>

theorem C5_best_of_empty:
  "findBestOpportunity [] = Inr None
   \<and> (reports \<noteq> [] \<longrightarrow>
        rank reports \<noteq> []
        \<and> findBestOpportunity reports = Inr (Some (rank reports ! 0)))"
proof -
  have "findBestOpportunity [] = Inr None"
    by (simp add: findBestOpportunity_def)
  moreover have "rank reports \<noteq> [] \<and> findBestOpportunity reports = Inr (Some (rank reports ! 0))"
    if "reports \<noteq> []"
    using that findBestOpportunity_rank [OF that] by (simp add: rank_Nil_iff hd_conv_nth)
  ultimately show ?thesis by blast
qed

theorem C5_best_of_empty_witness:
  "[sample 1 0 0 6 8 [''a''] ''NO'', sample 2 0 0 6 2 [] ''YES''] \<noteq> []
   \<and> rank [sample 1 0 0 6 8 [''a''] ''NO'', sample 2 0 0 6 2 [] ''YES'']
       = [sample 2 0 0 6 2 [] ''YES'', sample 1 0 0 6 8 [''a''] ''NO'']
   \<and> findBestOpportunity [sample 1 0 0 6 8 [''a''] ''NO'', sample 2 0 0 6 2 [] ''YES'']
       = Inr (Some (sample 2 0 0 6 2 [] ''YES''))"
  using C5_best_of_empty [of "[sample 1 0 0 6 8 [''a''] ''NO'', sample 2 0 0 6 2 [] ''YES'']"]
  by (simp add: rank_def sortedScores_def scores_def Array_sort_def scoreReport_def sample_def)

subsection \<open>The banner and the risk of the best opportunity\<close>

text \<open>
  Claim C10. There is a list of two reports whose best opportunity is not the
  report of lowest risk: a report marked "NO" with risk 2 loses to a report
  marked "YES" with risk 3. The banner that presents the winner still says
  "Lowest risk".
\<close>

theorem C10_best_not_lowest_risk:
  "\<exists>reports b q fs.
      2 \<le> length reports
      \<and> findBestOpportunity reports = Inr (Some b)
      \<and> q \<in> set reports \<and> risk_score q < risk_score b
      \<and> recommendationBanner (Some b) = Some fs
      \<and> Text '' - Lowest risk ('' \<in> set fs"
proof -
  let ?q = "sample 1 0 0 6 2 [] ''NO''"
  let ?b = "sample 2 0 0 6 3 [] ''YES''"
  have "findBestOpportunity [?q, ?b] = Inr (Some ?b)"
    by (simp add: findBestOpportunity_def sortedScores_def scores_def Array_sort_def
        scoreReport_def sample_def)
  moreover have "risk_score ?q < risk_score ?b" by (simp add: sample_def)
  moreover have "\<exists>fs. recommendationBanner (Some ?b) = Some fs \<and> Text '' - Lowest risk ('' \<in> set fs"
    by (simp add: recommendationBanner_def)
  ultimately show ?thesis
    by (intro exI [of _ "[?q, ?b]"] exI [of _ ?b] exI [of _ ?q]) auto
qed

subsection \<open>Best and worst values\<close>

lemma Math_min_Min:
  assumes "xs \<noteq> []"
  shows "Math_min xs = Fin (Min (set xs))"
proof -
  from assms obtain a as where xs: "xs = a # as" by (cases xs) auto
  show ?thesis unfolding xs using Min.set_eq_fold [of a as] by simp
qed

lemma Math_max_Max:
  assumes "xs \<noteq> []"
  shows "Math_max xs = Fin (Max (set xs))"
proof -
  from assms obtain a as where xs: "xs = a # as" by (cases xs) auto
  show ?thesis unfolding xs using Max.set_eq_fold [of a as] by simp
qed

lemma strict_eq_Fin: "strict_eq (Fin v) n = (Fin v = n)"
  by (cases n) simp_all

text \<open>
  Claim C2. For a list of reports that is not empty, the best and the worst value
  of each metric follow the table of directions: the best risk score, duration
  and minimal budget are the least ones and the worst the greatest; the best
  maximal budget is the greatest one and the worst the least. When the maximal
  budgets are 100, 200 and 150, the best is 200 and the worst 100.
\<close>

theorem C2_directionality:
  assumes "reports \<noteq> []"
  shows "getBestValue Key_risk_score reports = Fin (Min (risk_score ` set reports))
       \<and> getWorstValue Key_risk_score reports = Fin (Max (risk_score ` set reports))
       \<and> getBestValue Key_duration_months reports = Fin (Min (duration_months ` set reports))
       \<and> getWorstValue Key_duration_months reports = Fin (Max (duration_months ` set reports))
       \<and> getBestValue Key_budget_max reports = Fin (Max (budget_max ` set reports))
       \<and> getWorstValue Key_budget_max reports = Fin (Min (budget_max ` set reports))
       \<and> getBestValue Key_budget_min reports = Fin (Min (budget_min ` set reports))
       \<and> getWorstValue Key_budget_min reports = Fin (Max (budget_min ` set reports))
       \<and> (map budget_max reports = [100, 200, 150] \<longrightarrow>
            getBestValue Key_budget_max reports = Fin 200
            \<and> getWorstValue Key_budget_max reports = Fin 100)"
  using assms by (simp add: getBestValue_def getWorstValue_def Math_min_Min Math_max_Max)

theorem C2_directionality_witness:
  "[sample 1 80 100 6 3 [] ''YES'', sample 2 90 200 4 5 [] ''NO'',
    sample 3 70 150 9 1 [] ''MAYBE''] \<noteq> []
   \<and> map budget_max [sample 1 80 100 6 3 [] ''YES'', sample 2 90 200 4 5 [] ''NO'',
        sample 3 70 150 9 1 [] ''MAYBE''] = [100, 200, 150]
   \<and> getBestValue Key_budget_max [sample 1 80 100 6 3 [] ''YES'',
        sample 2 90 200 4 5 [] ''NO'', sample 3 70 150 9 1 [] ''MAYBE''] = Fin 200
   \<and> getWorstValue Key_budget_max [sample 1 80 100 6 3 [] ''YES'',
        sample 2 90 200 4 5 [] ''NO'', sample 3 70 150 9 1 [] ''MAYBE''] = Fin 100
   \<and> getBestValue Key_risk_score [sample 1 80 100 6 3 [] ''YES'',
        sample 2 90 200 4 5 [] ''NO'', sample 3 70 150 9 1 [] ''MAYBE''] = Fin 1
   \<and> getWorstValue Key_duration_months [sample 1 80 100 6 3 [] ''YES'',
        sample 2 90 200 4 5 [] ''NO'', sample 3 70 150 9 1 [] ''MAYBE''] = Fin 9"
  using C2_directionality [of "[sample 1 80 100 6 3 [] ''YES'', sample 2 90 200 4 5 [] ''NO'',
    sample 3 70 150 9 1 [] ''MAYBE'']"]
  by (simp add: sample_def)

subsection \<open>Classification\<close>

lemma getValueColor_cases:
  "getValueColor v key reports =
     className (if Fin v = getBestValue key reports then BEST
                else if Fin v = getWorstValue key reports then WORST
                else NEUTRAL)"
  by (simp add: getValueColor_def strict_eq_Fin)

lemma single_best: "getBestValue key [r] = Fin (metricOf key r)"
  by (cases key) (simp_all add: getBestValue_def)

lemma single_worst: "getWorstValue key [r] = Fin (metricOf key r)"
  by (cases key) (simp_all add: getWorstValue_def)

text \<open>
  Claim C3, as worded, has the worst extreme compared before the best one. On a
  single report with risk score 5 the source answers with the class of BEST,
  where that order of the two comparisons answers WORST.
\<close>

theorem C3_classify_counterexample:
  "getValueColor 5 Key_risk_score [sample 1 80 100 6 5 [] ''YES''] = className BEST
   \<and> classify_worst_first 5 Key_risk_score [sample 1 80 100 6 5 [] ''YES''] = WORST"
  by (simp add: getValueColor_def classify_worst_first_def getBestValue_def
      getWorstValue_def sample_def)

text \<open>
  Claim C3, amended. For every list of reports and every metric, the class is that
  of BEST when the value equals the best extreme; otherwise that of WORST when it
  equals the worst extreme; otherwise that of NEUTRAL. The comparison with the
  best extreme comes first, so that for a single report, whose best and worst
  extremes are equal, the class of its value is that of BEST.
\<close>

theorem C3_classify_best_first:
  "getValueColor v key reports =
     className (if Fin v = getBestValue key reports then BEST
                else if Fin v = getWorstValue key reports then WORST
                else NEUTRAL)
   \<and> getBestValue key [r] = getWorstValue key [r]
   \<and> getValueColor (metricOf key r) key [r] = className BEST"
  by (simp add: getValueColor_cases single_best single_worst)

subsection \<open>Summary statistics\<close>







text \<open>
  Claim C7, as worded, has the summary of no report fail with EmptyInputError.
  The source computes it without failing.
\<close>

theorem C7_empty_summary_counterexample:
  "summarize [] \<noteq> Inl EmptyInputError"
  by (simp add: summarize_def)

text \<open>
  Claim C7, amended. The summary of no report does not fail: each of the three
  averages is \<^verbatim>\<open>0 / 0\<close>, that is \<^verbatim>\<open>NaN\<close>, and the total of red flags is 0.
\<close>

theorem C7_empty_summary:
  "summarize [] = Inr \<lparr>avgRisk = NaN, avgBudget = NaN, avgDuration = NaN, totalRedFlags = 0\<rparr>"
  by (simp add: summarize_def average_risk_score_def average_budget_def average_duration_def
      total_red_flags_def js_div_def)

subsection \<open>Loading\<close>

lemma split_on_not_Nil: "split_on c s \<noteq> []"
  by (induction s) (auto split: list.splits)

lemma length_split_on: "length (split_on c s) = Suc (length (filter (\<lambda>x. x = c) s))"
  by (induction s) (auto split: list.splits simp: split_on_not_Nil)

lemma length_parse_ids:
  "length (parse_ids Number param) =
     (case param of None \<Rightarrow> 0 | Some s \<Rightarrow> Suc (length (filter (\<lambda>x. x = CHR '','') s)))"
  by (simp add: parse_ids_def length_split_on split: option.splits)



subsection \<open>What the operations leave untouched\<close>

lemma read_cell_append: "read_cell h a = Some c \<Longrightarrow> read_cell (h @ cs) a = Some c"
  by (auto simp: read_cell_def nth_append split: if_splits)

lemma read_cell_fresh: "read_cell (h @ [c]) (length h) = Some c"
  by (simp add: read_cell_def)

lemma read_report_append: "read_report h p = Inr r \<Longrightarrow> read_report (h @ cs) p = Inr r"
  by (auto simp: read_report_def dest: read_cell_append [of h p _ cs]
      split: option.splits cell.splits)

lemma read_refs_append: "read_refs h a = Inr ps \<Longrightarrow> read_refs (h @ cs) a = Inr ps"
  by (auto simp: read_refs_def dest: read_cell_append [of h a _ cs]
      split: option.splits cell.splits)

lemma mapE_Inr_all2: "mapE f ps = Inr rs \<Longrightarrow> list_all2 (\<lambda>p r. f p = Inr r) ps rs"
  by (induction ps arbitrary: rs) (auto split: sum.splits)

lemma all2_mapE_Inr: "list_all2 (\<lambda>p r. f p = Inr r) ps rs \<Longrightarrow> mapE f ps = Inr rs"
  by (induction ps rs rule: list_all2_induct) simp_all

lemma mapE_list_all2: "mapE f ps = Inr rs \<longleftrightarrow> list_all2 (\<lambda>p r. f p = Inr r) ps rs"
  using mapE_Inr_all2 all2_mapE_Inr by blast

lemma deref_reports_iff:
  "deref_reports h a = Inr rs \<longleftrightarrow>
     (\<exists>ps. read_refs h a = Inr ps \<and> list_all2 (\<lambda>p r. read_report h p = Inr r) ps rs)"
  by (auto simp: deref_reports_def mapE_list_all2 split: sum.splits)

lemma deref_reports_append:
  assumes "deref_reports h a = Inr rs"
  shows "deref_reports (h @ cs) a = Inr rs"
proof -
  from assms obtain ps where ps: "read_refs h a = Inr ps"
    and all: "list_all2 (\<lambda>p r. read_report h p = Inr r) ps rs"
    by (auto simp: deref_reports_iff)
  have "list_all2 (\<lambda>p r. read_report (h @ cs) p = Inr r) ps rs"
    using all by (rule list_all2_mono) (simp add: read_report_append)
  then show ?thesis using read_refs_append [OF ps] by (auto simp: deref_reports_iff)
qed

lemma h_extreme_result:
  assumes "deref_reports h a = Inr rs"
  shows "h_extreme m f a h = Inr (m (map f rs), h @ [NumberArray (map f rs)])"
  using assms by (simp add: h_extreme_def alloc_def read_numbers_def read_cell_fresh)

lemma h_getBestValue_result:
  assumes "deref_reports h a = Inr rs"
  shows "h_getBestValue key a h
           = Inr (getBestValue key rs, h @ [NumberArray (map (metricOf key) rs)])"
  using assms
  by (cases key) (simp_all add: h_getBestValue_def getBestValue_def h_extreme_result cong: map_cong)

lemma h_getWorstValue_result:
  assumes "deref_reports h a = Inr rs"
  shows "h_getWorstValue key a h
           = Inr (getWorstValue key rs, h @ [NumberArray (map (metricOf key) rs)])"
  using assms
  by (cases key) (simp_all add: h_getWorstValue_def getWorstValue_def h_extreme_result cong: map_cong)

lemma h_getValueColor_result:
  assumes "deref_reports h a = Inr rs"
  shows "h_getValueColor v key a h
           = Inr (getValueColor v key rs,
                  h @ [NumberArray (map (metricOf key) rs), NumberArray (map (metricOf key) rs)])"
proof -
  let ?h1 = "h @ [NumberArray (map (metricOf key) rs)]"
  have "h_getWorstValue key a ?h1
          = Inr (getWorstValue key rs, ?h1 @ [NumberArray (map (metricOf key) rs)])"
    by (rule h_getWorstValue_result) (rule deref_reports_append [OF assms])
  then show ?thesis
    by (simp add: h_getValueColor_def h_getBestValue_result [OF assms] getValueColor_def)
qed

lemma h_summarize_result:
  assumes "deref_reports h a = Inr rs"
  shows "\<exists>s. summarize rs = Inr s \<and> h_summarize a h = Inr (s, h)"
  using assms by (simp add: h_summarize_def summarize_def)

text \<open>The sorted array of pairs against the sorted array of the value model.\<close>

lemma map_insort_key:
  "map g (insort_key (\<lambda>x. f (g x)) x ys) = insort_key f (g x) (map g ys)"
  by (induction ys) simp_all

lemma map_sort_key: "map g (sort_key (\<lambda>x. f (g x)) xs) = sort_key f (map g xs)"
  by (induction xs) (simp_all add: map_insort_key)

lemma scored_at_pairs:
  assumes "list_all2 (\<lambda>p r. read_report h p = Inr r) ps rs"
  shows "map (scored_at h) (zip ps (map (\<lambda>r. score (scoreReport r)) rs)) = map scoreReport rs"
  using assms
  by (induction ps rs rule: list_all2_induct) (simp_all add: scored_at_def scoreReport_def Let_def)

lemma mapE_pairs:
  assumes "list_all2 (\<lambda>p r. read_report h p = Inr r) ps rs"
  shows "mapE (\<lambda>p. case read_report h p of Inl e \<Rightarrow> Inl e | Inr r \<Rightarrow> Inr (p, F r)) ps
           = Inr (zip ps (map F rs))"
  using assms by (induction ps rs rule: list_all2_induct) simp_all

lemma sorted_pairs:
  assumes "list_all2 (\<lambda>p r. read_report h p = Inr r) ps rs"
  shows "map (scored_at h)
           (Array_sort (\<lambda>x y. snd x - snd y) (zip ps (map (\<lambda>r. score (scoreReport r)) rs)))
         = sortedScores rs"
proof -
  let ?ss = "zip ps (map (\<lambda>r. score (scoreReport r)) rs)"
  have "map (scored_at h) (sort_key (\<lambda>x. score (scored_at h x)) ?ss)
          = sort_key score (map (scored_at h) ?ss)"
    by (rule map_sort_key)
  moreover have "(\<lambda>x. score (scored_at h x)) = snd"
    by (simp add: scored_at_def fun_eq_iff)
  ultimately show ?thesis
    by (simp add: Array_sort_sort_key sortedScores_sort_key scored_at_pairs [OF assms])
qed

lemma h_findBestOpportunity_result:
  assumes "deref_reports h a = Inr rs"
  shows "\<exists>b h'. h_findBestOpportunity a h = Inr (b, h')
           \<and> take (length h) h' = h
           \<and> (case b of
                None \<Rightarrow> findBestOpportunity rs = Inr None
              | Some p \<Rightarrow> \<exists>r. read_report h p = Inr r \<and> findBestOpportunity rs = Inr (Some r))"
proof -
  from assms obtain ps where ps: "read_refs h a = Inr ps"
    and all: "list_all2 (\<lambda>p r. read_report h p = Inr r) ps rs"
    by (auto simp: deref_reports_iff)
  have len: "length ps = length rs" using all by (rule list_all2_lengthD)
  show ?thesis
  proof (cases "ps = []")
    case True
    then have "rs = []" using len by simp
    then show ?thesis using True ps
      by (simp add: h_findBestOpportunity_def findBestOpportunity_def)
  next
    case False
    let ?ss = "zip ps (map (\<lambda>r. score (scoreReport r)) rs)"
    let ?sorted = "Array_sort (\<lambda>x y. snd x - snd y) ?ss"
    let ?h2 = "h @ [ScoresArray ?sorted]"
    have rs_ne: "rs \<noteq> []" using False len by auto
    have m: "map (scored_at h) ?sorted = sortedScores rs" by (rule sorted_pairs [OF all])
    then have "?sorted \<noteq> []" using rs_ne sortedScores_Nil_iff [of rs] by auto
    then obtain s rest where srt: "?sorted = s # rest" by (cases ?sorted) auto
    have run: "h_findBestOpportunity a h = Inr (Some (fst s), ?h2)"
      using False ps srt
      by (simp add: h_findBestOpportunity_def mapE_pairs [OF all] alloc_def sort_in_place_def
          read_scores_def read_cell_fresh)
    have "s \<in> set ?sorted" using srt by simp
    then have "s \<in> set ?ss" by (simp add: Array_sort_sort_key)
    then have "fst s \<in> set ps"
      using set_zip_leftD [of "fst s" "snd s" ps] by simp
    then obtain r where r: "read_report h (fst s) = Inr r"
      using all by (auto simp: list_all2_conv_all_nth in_set_conv_nth)
    have "hd (sortedScores rs) = scored_at h s" using m srt by (metis list.sel(1) list.simps(9))
    then have "report (hd (sortedScores rs)) = r" using r by (simp add: scored_at_def)
    then have "findBestOpportunity rs = Inr (Some r)"
      using findBestOpportunity_hd [OF rs_ne] by simp
    then show ?thesis using run r by simp
  qed
qed

lemma take_append_self: "take (length h) (h @ cs) = h"
  by simp

text \<open>
  Claim C9. Let the array at an address of a store refer to a list of reports.
  Each operation of the engine (the best opportunity, the best value, the worst
  value, the class of a value, the summary) then ends without an error, with the
  result that the value model gives for these reports, and in a store where every
  cell that existed before the call is as it was: new cells are added after them
  and the sort writes to the array that the call allocated. The input array
  still refers to the same reports, none of their fields changed.
\<close>

theorem C9_inputs_unchanged:
  assumes "deref_reports h a = Inr reports"
  shows "(\<exists>b h'. h_findBestOpportunity a h = Inr (b, h')
            \<and> take (length h) h' = h \<and> deref_reports h' a = Inr reports
            \<and> (case b of
                  None \<Rightarrow> findBestOpportunity reports = Inr None
                | Some p \<Rightarrow> \<exists>r. read_report h' p = Inr r
                             \<and> findBestOpportunity reports = Inr (Some r)))
       \<and> (\<exists>h'. h_getBestValue key a h = Inr (getBestValue key reports, h')
            \<and> take (length h) h' = h \<and> deref_reports h' a = Inr reports)
       \<and> (\<exists>h'. h_getWorstValue key a h = Inr (getWorstValue key reports, h')
            \<and> take (length h) h' = h \<and> deref_reports h' a = Inr reports)
       \<and> (\<exists>h'. h_getValueColor v key a h = Inr (getValueColor v key reports, h')
            \<and> take (length h) h' = h \<and> deref_reports h' a = Inr reports)
       \<and> (\<exists>s. summarize reports = Inr s \<and> h_summarize a h = Inr (s, h))"
proof -
  have unchanged: "deref_reports h' a = Inr reports" if "take (length h) h' = h" for h'
  proof -
    have "h' = h @ drop (length h) h'" using that by (metis append_take_drop_id)
    then show ?thesis using deref_reports_append [OF assms] by metis
  qed
  have readable: "read_report h' p = Inr r"
    if "take (length h) h' = h" "read_report h p = Inr r" for h' p r
  proof -
    have "h' = h @ drop (length h) h'" using that(1) by (metis append_take_drop_id)
    then show ?thesis using read_report_append [OF that(2)] by metis
  qed
  have best: "\<exists>b h'. h_findBestOpportunity a h = Inr (b, h')
      \<and> take (length h) h' = h \<and> deref_reports h' a = Inr reports
      \<and> (case b of
            None \<Rightarrow> findBestOpportunity reports = Inr None
          | Some p \<Rightarrow> \<exists>r. read_report h' p = Inr r
                       \<and> findBestOpportunity reports = Inr (Some r))"
  proof -
    from h_findBestOpportunity_result [OF assms] obtain b h'
      where run: "h_findBestOpportunity a h = Inr (b, h')"
        and frame: "take (length h) h' = h"
        and res: "case b of
            None \<Rightarrow> findBestOpportunity reports = Inr None
          | Some p \<Rightarrow> \<exists>r. read_report h p = Inr r
                       \<and> findBestOpportunity reports = Inr (Some r)"
      by blast
    have "case b of
            None \<Rightarrow> findBestOpportunity reports = Inr None
          | Some p \<Rightarrow> \<exists>r. read_report h' p = Inr r
                       \<and> findBestOpportunity reports = Inr (Some r)"
      using res readable [OF frame] by (cases b) auto
    then show ?thesis using run frame unchanged [OF frame] by blast
  qed
  have bv: "\<exists>h'. h_getBestValue key a h = Inr (getBestValue key reports, h')
      \<and> take (length h) h' = h \<and> deref_reports h' a = Inr reports"
    using h_getBestValue_result [OF assms, of key] unchanged take_append_self by metis
  have wv: "\<exists>h'. h_getWorstValue key a h = Inr (getWorstValue key reports, h')
      \<and> take (length h) h' = h \<and> deref_reports h' a = Inr reports"
    using h_getWorstValue_result [OF assms, of key] unchanged take_append_self by metis
  have vc: "\<exists>h'. h_getValueColor v key a h = Inr (getValueColor v key reports, h')
      \<and> take (length h) h' = h \<and> deref_reports h' a = Inr reports"
    using h_getValueColor_result [OF assms, of v key] unchanged take_append_self by metis
  show ?thesis using best bv wv vc h_summarize_result [OF assms] by blast
qed

theorem C9_inputs_unchanged_witness:
  "deref_reports sample_store 2
     = Inr [sample 1 80 100 6 8 [''a'', ''b'', ''c''] ''NO'', sample 2 90 200 4 2 [] ''YES'']
   \<and> h_findBestOpportunity 2 sample_store
       = Inr (Some 1, sample_store @ [ScoresArray [(1, 0), (0, 145)]])
   \<and> h_getBestValue Key_budget_max 2 sample_store
       = Inr (Fin 200, sample_store @ [NumberArray [100, 200]])
   \<and> h_getWorstValue Key_budget_max 2 sample_store
       = Inr (Fin 100, sample_store @ [NumberArray [100, 200]])
   \<and> h_getValueColor 200 Key_budget_max 2 sample_store
       = Inr (className BEST,
              sample_store @ [NumberArray [100, 200], NumberArray [100, 200]])
   \<and> h_summarize 2 sample_store
       = Inr (\<lparr>avgRisk = Fin 5, avgBudget = Fin (235 / 2), avgDuration = Fin 5,
               totalRedFlags = 3\<rparr>, sample_store)"
  using C9_inputs_unchanged [of sample_store 2
    "[sample 1 80 100 6 8 [''a'', ''b'', ''c''] ''NO'', sample 2 90 200 4 2 [] ''YES'']"]
  by (simp add: sample_store_def deref_reports_def read_refs_def read_report_def read_cell_def
      h_findBestOpportunity_def alloc_def sort_in_place_def read_scores_def Array_sort_def
      scoreReport_def h_getBestValue_def h_getWorstValue_def h_getValueColor_def h_extreme_def
      read_numbers_def h_summarize_def average_risk_score_def average_budget_def
      average_duration_def total_red_flags_def js_div_def sample_def)

end
